theory Spec2Isabelle
  imports Main "HOL-Library.Word" "HOL-Library.Log_Nat"
begin

section \<open>Go values held in an interface\<close>

text \<open>
  The validators receive their candidate in a field of type \<^verbatim>\<open>interface{}\<close> and
  dispatch on its dynamic type. The dynamic types the code names are \<^verbatim>\<open>string\<close>,
  \<^verbatim>\<open>int64\<close> and \<^verbatim>\<open>float64\<close>; every other dynamic type is represented by its name
  only, since no validator looks inside such a value. \<open>VNil\<close> is the nil interface,
  which has no dynamic type.

  A Go string is a sequence of bytes and \<^verbatim>\<open>len\<close> counts bytes: \<^typ>\<open>string\<close>.
  An \<^verbatim>\<open>int64\<close> is a 64-bit word read as two's complement. A \<^verbatim>\<open>float64\<close> is its
  IEEE 754 binary64 bit pattern.
\<close>

type_synonym int64 = "64 word"
type_synonym float64 = "64 word"
type_synonym rune = nat

datatype reflect_Type = StringType | Int64Type | Float64Type | OtherType string

datatype iface =
    VNil
  | VString string
  | VInt64 int64
  | VFloat64 float64
  | VOther string

text \<open>\<^verbatim>\<open>reflect.TypeOf\<close>: the dynamic type, and the nil \<^verbatim>\<open>Type\<close> for a nil interface.\<close>

fun TypeOf :: "iface \<Rightarrow> reflect_Type option" where
  "TypeOf VNil = None"
| "TypeOf (VString s) = Some StringType"
| "TypeOf (VInt64 i) = Some Int64Type"
| "TypeOf (VFloat64 f) = Some Float64Type"
| "TypeOf (VOther n) = Some (OtherType n)"

section \<open>The parts of Go's standard library the code calls\<close>

subsection \<open>strconv\<close>

text \<open>
  \<^verbatim>\<open>strconv.ParseInt(s, 10, bitSize)\<close>: an optional sign, then one or more decimal
  digits, and the value must fit a signed integer of \<open>bitSize\<close> bits (\<open>bitSize = 0\<close>
  stands for the size of \<^verbatim>\<open>int\<close>, taken here as 64 bits). The callers only test
  \<^verbatim>\<open>err != nil\<close>, so the syntax error and the range error are both \<open>None\<close>.
\<close>

definition IntSize :: nat where
  "IntSize = 64"

definition digit :: "char \<Rightarrow> nat option" where
  "digit c = (let b = (of_char c :: nat) in if 48 \<le> b \<and> b \<le> 57 then Some (b - 48) else None)"

fun ParseUint_digits :: "nat \<Rightarrow> nat \<Rightarrow> string \<Rightarrow> nat option" where
  "ParseUint_digits maxVal n [] = Some n"
| "ParseUint_digits maxVal n (c # cs) =
     (case digit c of
        None \<Rightarrow> None
      | Some d \<Rightarrow> if n * 10 + d > maxVal then None else ParseUint_digits maxVal (n * 10 + d) cs)"

definition ParseUint :: "string \<Rightarrow> nat \<Rightarrow> nat option" where
  "ParseUint s bitSize = (if s = [] then None else ParseUint_digits (2 ^ bitSize - 1) 0 s)"

definition ParseInt :: "string \<Rightarrow> nat \<Rightarrow> int option" where
  "ParseInt s bitSize0 =
     (let bitSize = (if bitSize0 = 0 then IntSize else bitSize0) in
      case s of
        [] \<Rightarrow> None
      | c # rest \<Rightarrow>
          (let neg = (c = CHR ''-'');
               body = (if c = CHR ''+'' \<or> c = CHR ''-'' then rest else s)
           in case ParseUint body bitSize of
                None \<Rightarrow> None
              | Some un \<Rightarrow>
                  (let cutoff = (2::nat) ^ (bitSize - 1) in
                   if \<not> neg \<and> un \<ge> cutoff then None
                   else if neg \<and> un > cutoff then None
                   else Some (if neg then - int un else int un))))"

definition Atoi :: "string \<Rightarrow> int option" where
  "Atoi s = ParseInt s 0"

text \<open>\<^verbatim>\<open>strconv.Itoa\<close>: the decimal digits, with a minus sign for a negative number.\<close>

function digits10 :: "nat \<Rightarrow> string" where
  "digits10 n =
     (if n < 10 then [char_of (48 + n)]
      else digits10 (n div 10) @ [char_of (48 + n mod 10)])"
  by pat_completeness auto
termination
  by (relation "measure (\<lambda>n. n)") auto

declare digits10.simps [simp del]

definition Itoa :: "int \<Rightarrow> string" where
  "Itoa i = (if i < 0 then CHR ''-'' # digits10 (nat (- i)) else digits10 (nat i))"

subsection \<open>float64 comparisons\<close>

text \<open>
  The code compares a \<^verbatim>\<open>float64\<close> with \<^verbatim>\<open>float64(n)\<close> for an \<^verbatim>\<open>int\<close> \<open>n\<close> and with
  the constant 0. Every finite binary64 value is an integer multiple of \<open>2^-1074\<close>, so
  the comparisons are decided on integers: \<open>float64_scaled f\<close> is the value of \<open>f\<close>
  times \<open>2^1074\<close> (an infinity counts as \<open>2^1024\<close>, beyond every finite value), and a
  NaN compares false with everything. \<open>float64_of_int n\<close> is the value of the
  conversion \<^verbatim>\<open>float64(n)\<close>, which rounds to 53 significant bits, ties to even.
\<close>

definition float64_exp :: "float64 \<Rightarrow> nat" where
  "float64_exp f = unat (drop_bit 52 f) mod 2048"

definition float64_frac :: "float64 \<Rightarrow> nat" where
  "float64_frac f = unat f mod 2 ^ 52"

definition float64_isNaN :: "float64 \<Rightarrow> bool" where
  "float64_isNaN f = (float64_exp f = 2047 \<and> float64_frac f \<noteq> 0)"

definition float64_scaled :: "float64 \<Rightarrow> int" where
  "float64_scaled f =
     (let m = (if float64_exp f = 0 then float64_frac f
               else (2 ^ 52 + float64_frac f) * 2 ^ (float64_exp f - 1))
      in if bit f 63 then - int m else int m)"

definition float64_of_int :: "int \<Rightarrow> int" where
  "float64_of_int n =
     (let a = nat \<bar>n\<bar> in
      if a < 2 ^ 53 then n
      else
        (let sh = floorlog 2 a - 53;
             q = a div 2 ^ sh;
             r = a mod 2 ^ sh;
             half = (2::nat) ^ (sh - 1);
             q' = (if r > half \<or> (r = half \<and> odd q) then q + 1 else q)
         in sgn n * int (q' * 2 ^ sh)))"

definition float64_less_int :: "float64 \<Rightarrow> int \<Rightarrow> bool" where
  "float64_less_int f n = (\<not> float64_isNaN f \<and> float64_scaled f < float64_of_int n * 2 ^ 1074)"

definition float64_greater_int :: "float64 \<Rightarrow> int \<Rightarrow> bool" where
  "float64_greater_int f n = (\<not> float64_isNaN f \<and> float64_scaled f > float64_of_int n * 2 ^ 1074)"

definition float64_is_zero :: "float64 \<Rightarrow> bool" where
  "float64_is_zero f = (float64_exp f = 0 \<and> float64_frac f = 0)"

subsection \<open>unicode and the range loop over a string\<close>

text \<open>
  \<^verbatim>\<open>unicode.IsLetter\<close>, \<^verbatim>\<open>IsLower\<close> and \<^verbatim>\<open>IsUpper\<close> answer from a fixed property table
  for the code points up to \<^verbatim>\<open>MaxLatin1\<close> and from the Unicode range tables above it.
  The Latin-1 part is written out; the range tables are a parameter.
\<close>

record unicode_tables =
  Letter :: "rune \<Rightarrow> bool"
  Lower :: "rune \<Rightarrow> bool"
  Upper :: "rune \<Rightarrow> bool"

definition MaxLatin1 :: rune where
  "MaxLatin1 = 255"

definition latin1_upper :: "rune \<Rightarrow> bool" where
  "latin1_upper r = ((65 \<le> r \<and> r \<le> 90) \<or> (192 \<le> r \<and> r \<le> 214) \<or> (216 \<le> r \<and> r \<le> 222))"

definition latin1_lower :: "rune \<Rightarrow> bool" where
  "latin1_lower r = ((97 \<le> r \<and> r \<le> 122) \<or> r = 181 \<or> (223 \<le> r \<and> r \<le> 246) \<or> (248 \<le> r \<and> r \<le> 255))"

definition latin1_letter :: "rune \<Rightarrow> bool" where
  "latin1_letter r = (latin1_upper r \<or> latin1_lower r \<or> r = 170 \<or> r = 186)"

definition IsUpper :: "unicode_tables \<Rightarrow> rune \<Rightarrow> bool" where
  "IsUpper T r = (if r \<le> MaxLatin1 then latin1_upper r else Upper T r)"

definition IsLower :: "unicode_tables \<Rightarrow> rune \<Rightarrow> bool" where
  "IsLower T r = (if r \<le> MaxLatin1 then latin1_lower r else Lower T r)"

definition IsLetter :: "unicode_tables \<Rightarrow> rune \<Rightarrow> bool" where
  "IsLetter T r = (if r \<le> MaxLatin1 then latin1_letter r else Letter T r)"

text \<open>
  \<^verbatim>\<open>for _, char := range s\<close> decodes UTF-8: a well-formed sequence gives its code
  point, anything else gives \<^verbatim>\<open>RuneError\<close> (U+FFFD) and advances by one byte.
\<close>

definition RuneError :: rune where
  "RuneError = 65533"

definition cont_in :: "nat \<Rightarrow> nat \<Rightarrow> nat \<Rightarrow> bool" where
  "cont_in lo hi b = (lo \<le> b \<and> b \<le> hi)"

fun DecodeRune :: "nat list \<Rightarrow> rune \<times> nat" where
  "DecodeRune [] = (RuneError, 0)"
| "DecodeRune (b0 # bs) =
     (if b0 < 128 then (b0, 1)
      else if 194 \<le> b0 \<and> b0 \<le> 223 then
        (case bs of
           b1 # _ \<Rightarrow>
             if cont_in 128 191 b1 then ((b0 mod 32) * 64 + b1 mod 64, 2) else (RuneError, 1)
         | _ \<Rightarrow> (RuneError, 1))
      else if 224 \<le> b0 \<and> b0 \<le> 239 then
        (case bs of
           b1 # b2 # _ \<Rightarrow>
             if cont_in (if b0 = 224 then 160 else 128) (if b0 = 237 then 159 else 191) b1
                \<and> cont_in 128 191 b2
             then ((b0 mod 16) * 4096 + (b1 mod 64) * 64 + b2 mod 64, 3)
             else (RuneError, 1)
         | _ \<Rightarrow> (RuneError, 1))
      else if 240 \<le> b0 \<and> b0 \<le> 244 then
        (case bs of
           b1 # b2 # b3 # _ \<Rightarrow>
             if cont_in (if b0 = 240 then 144 else 128) (if b0 = 244 then 143 else 191) b1
                \<and> cont_in 128 191 b2 \<and> cont_in 128 191 b3
             then ((b0 mod 8) * 262144 + (b1 mod 64) * 4096 + (b2 mod 64) * 64 + b3 mod 64, 4)
             else (RuneError, 1)
         | _ \<Rightarrow> (RuneError, 1))
      else (RuneError, 1))"

lemma DecodeRune_width: "bs \<noteq> [] \<Longrightarrow> 0 < snd (DecodeRune bs)"
  by (cases bs) (auto split: list.splits)

function range_runes :: "nat list \<Rightarrow> rune list" where
  "range_runes bs =
     (if bs = [] then []
      else fst (DecodeRune bs) # range_runes (drop (snd (DecodeRune bs)) bs))"
  by pat_completeness auto
termination
proof (relation "measure length")
  show "wf (measure length)" by simp
next
  fix bs :: "nat list"
  assume "bs \<noteq> []"
  then have "0 < snd (DecodeRune bs)" by (rule DecodeRune_width)
  with \<open>bs \<noteq> []\<close> show "(drop (snd (DecodeRune bs)) bs, bs) \<in> measure length"
    by simp
qed

declare range_runes.simps [simp del]

definition runes_of :: "string \<Rightarrow> rune list" where
  "runes_of s = range_runes (map of_char s)"

subsection \<open>strings\<close>

text \<open>\<^verbatim>\<open>strings.Join\<close>.\<close>

fun Join :: "string list \<Rightarrow> string \<Rightarrow> string" where
  "Join [] sep = []"
| "Join [a] sep = a"
| "Join (a # b # rest) sep = a @ sep @ Join (b # rest) sep"

section \<open>Errors\<close>

text \<open>
  A Go \<^verbatim>\<open>error\<close> is either a value made by \<^verbatim>\<open>errors.New\<close>, which carries its text, or
  the repository's \<^verbatim>\<open>*UnsupportedTypeError\<close>, which carries the \<^verbatim>\<open>reflect.Type\<close> of the
  value and a message. A returned \<^verbatim>\<open>nil\<close> error is \<open>None\<close>.
\<close>

datatype error =
    errorString string
  | UnsupportedTypeError (Type: "reflect_Type option") (Message: string)

definition NewUnsupportedTypeError :: "string \<Rightarrow> iface \<Rightarrow> error" where
  "NewUnsupportedTypeError validatorName v =
     (let valueType = TypeOf v in
      UnsupportedTypeError valueType
        (''Validator with name '' @ [CHR 0x27] @ validatorName
           @ ''' on struct '{struct}' and field '{field}' is not supported.''))"

fun Error :: "error \<Rightarrow> string" where
  "Error (errorString s) = s"
| "Error (UnsupportedTypeError t m) = m"

section \<open>The validator context and the built-in validators\<close>

text \<open>
  A validator receives a pointer to the context and may write to it; the model passes
  the context in and returns it, updated, beside the returned error. The pointer is the
  one \<^verbatim>\<open>NewValidatorContext\<close> made, so it is not nil.
\<close>

record ValidatorContext =
  Value :: iface
  IsNil :: bool
  StopValidate :: bool

text \<open>
  \<^verbatim>\<open>NormalizedValue\<close> is declared outside these files; the constructor reads its two
  fields. The stop flag of a new context is the zero value of its type.
\<close>

record NormalizedValue =
  nvValue :: iface
  nvIsNil :: bool

definition NewValidatorContext :: "NormalizedValue \<Rightarrow> ValidatorContext" where
  "NewValidatorContext normalizedValue =
     \<lparr>Value = nvValue normalizedValue, IsNil = nvIsNil normalizedValue, StopValidate = False\<rparr>"

type_synonym ValidatorFilter = "ValidatorContext \<Rightarrow> string list \<Rightarrow> error option \<times> ValidatorContext"

definition IsEmpty :: ValidatorFilter where
  "IsEmpty ctx opts =
     (if length opts > 0 then
        (Some (errorString ''Validator 'empty' does not support any arguments.''), ctx)
      else
        (case Value ctx of
           VString typedValue \<Rightarrow>
             (None, if IsNil ctx \<or> length typedValue = 0 then ctx\<lparr>StopValidate := True\<rparr> else ctx)
         | VInt64 typedValue \<Rightarrow>
             (None, if IsNil ctx \<or> typedValue = 0 then ctx\<lparr>StopValidate := True\<rparr> else ctx)
         | _ \<Rightarrow>
             if IsNil ctx then (None, ctx\<lparr>StopValidate := True\<rparr>)
             else (Some (NewUnsupportedTypeError ''empty'' (Value ctx)), ctx)))"

definition IsNotEmpty :: ValidatorFilter where
  "IsNotEmpty ctx opts =
     (if length opts > 0 then
        (Some (errorString ''Validator 'not_empty' does not support any arguments.''), ctx)
      else
        (case Value ctx of
           VString typedValue \<Rightarrow>
             (if IsNil ctx \<or> length typedValue = 0
              then (Some (errorString ''{field} cannot be empty.''), ctx)
              else (None, ctx))
         | VInt64 typedValue \<Rightarrow>
             (if IsNil ctx \<or> typedValue = 0
              then (Some (errorString ''{field} cannot be empty.''), ctx)
              else (None, ctx))
         | VFloat64 typedValue \<Rightarrow>
             (if IsNil ctx \<or> float64_is_zero typedValue
              then (Some (errorString ''{field} cannot be empty.''), ctx)
              else (None, ctx))
         | _ \<Rightarrow>
             if IsNil ctx then (Some (errorString ''{field} cannot be empty.''), ctx)
             else (Some (NewUnsupportedTypeError ''not_empty'' (Value ctx)), ctx)))"

definition IsMin :: ValidatorFilter where
  "IsMin ctx opts =
     (if length opts \<noteq> 1 then
        (Some (errorString ''Validator 'min' requires a single argument.''), ctx)
      else
        (case Atoi (opts ! 0) of
           None \<Rightarrow> (Some (errorString ''Unable to parse 'min' validator value.''), ctx)
         | Some minValue \<Rightarrow>
             (case Value ctx of
                VString typedValue \<Rightarrow>
                  (if IsNil ctx \<or> int (length typedValue) < minValue
                   then (Some (errorString (''{field} cannot be shorter than '' @ Itoa minValue
                                              @ '' characters.'')), ctx)
                   else (None, ctx))
              | VInt64 typedValue \<Rightarrow>
                  (if IsNil ctx \<or> word_sless typedValue (word_of_int minValue)
                   then (Some (errorString (''{field} cannot be less than '' @ Itoa minValue
                                              @ ''.'')), ctx)
                   else (None, ctx))
              | VFloat64 typedValue \<Rightarrow>
                  (if IsNil ctx \<or> float64_less_int typedValue minValue
                   then (Some (errorString (''{field} cannot be less than '' @ Itoa minValue
                                              @ ''.'')), ctx)
                   else (None, ctx))
              | _ \<Rightarrow> (Some (NewUnsupportedTypeError ''min'' (Value ctx)), ctx))))"

definition IsMax :: ValidatorFilter where
  "IsMax ctx opts =
     (if length opts \<noteq> 1 then
        (Some (errorString ''Validator 'max' requires a single argument.''), ctx)
      else
        (case Atoi (opts ! 0) of
           None \<Rightarrow> (Some (errorString ''Unable to parse 'max' validator value.''), ctx)
         | Some minValue \<Rightarrow>
             (case Value ctx of
                VString typedValue \<Rightarrow>
                  (if \<not> IsNil ctx \<and> int (length typedValue) > minValue
                   then (Some (errorString (''{field} is longer than '' @ Itoa minValue
                                              @ '' characters.'')), ctx)
                   else (None, ctx))
              | VInt64 typedValue \<Rightarrow>
                  (if \<not> IsNil ctx \<and> word_sless (word_of_int minValue) typedValue
                   then (Some (errorString (''{field} cannot be greater than '' @ Itoa minValue
                                              @ ''.'')), ctx)
                   else (None, ctx))
              | VFloat64 typedValue \<Rightarrow>
                  (if \<not> IsNil ctx \<and> float64_greater_int typedValue minValue
                   then (Some (errorString (''{field} cannot be greater than '' @ Itoa minValue
                                              @ ''.'')), ctx)
                   else (None, ctx))
              | _ \<Rightarrow> (Some (NewUnsupportedTypeError ''max'' (Value ctx)), ctx))))"

text \<open>The two case loops return at the first letter of the wrong case.\<close>

fun all_lower :: "unicode_tables \<Rightarrow> rune list \<Rightarrow> bool" where
  "all_lower T [] = True"
| "all_lower T (c # cs) = (if IsLetter T c \<and> \<not> IsLower T c then False else all_lower T cs)"

fun all_upper :: "unicode_tables \<Rightarrow> rune list \<Rightarrow> bool" where
  "all_upper T [] = True"
| "all_upper T (c # cs) = (if IsLetter T c \<and> \<not> IsUpper T c then False else all_upper T cs)"

definition IsLowerCase :: "unicode_tables \<Rightarrow> ValidatorFilter" where
  "IsLowerCase T ctx opts =
     (if length opts > 0 then
        (Some (errorString ''Validator 'lowercase' does not support any arguments.''), ctx)
      else
        (case Value ctx of
           VString typedValue \<Rightarrow>
             (if IsNil ctx \<or> length typedValue = 0 then (None, ctx)
              else if all_lower T (runes_of typedValue) then (None, ctx)
              else (Some (errorString ''{field} must be in lower case.''), ctx))
         | _ \<Rightarrow> (Some (NewUnsupportedTypeError ''lowercase'' (Value ctx)), ctx)))"

definition IsUpperCase :: "unicode_tables \<Rightarrow> ValidatorFilter" where
  "IsUpperCase T ctx opts =
     (if length opts > 0 then
        (Some (errorString ''Validator 'uppercase' does not support any arguments.''), ctx)
      else
        (case Value ctx of
           VString typedValue \<Rightarrow>
             (if IsNil ctx \<or> length typedValue = 0 then (None, ctx)
              else if all_upper T (runes_of typedValue) then (None, ctx)
              else (Some (errorString ''{field} must be in upper case.''), ctx))
         | _ \<Rightarrow> (Some (NewUnsupportedTypeError ''uppercase'' (Value ctx)), ctx)))"

definition IsNumeric :: ValidatorFilter where
  "IsNumeric ctx opts =
     (if length opts > 0 then
        (Some (errorString ''Validator 'numeric' does not support any arguments.''), ctx)
      else
        (case Value ctx of
           VString typedValue \<Rightarrow>
             (if IsNil ctx \<or> length typedValue = 0
              then (Some (errorString ''{field} must be numeric.''), ctx)
              else
                (case ParseInt typedValue 32 of
                   None \<Rightarrow> (Some (errorString ''{field} must contain numbers only.''), ctx)
                 | Some v \<Rightarrow> (None, ctx\<lparr>Value := VInt64 (word_of_int v)\<rparr>)))
         | _ \<Rightarrow> (Some (NewUnsupportedTypeError ''numeric'' (Value ctx)), ctx)))"

text \<open>
  \<^verbatim>\<open>registerDefaultValidators\<close> registers the seven validators under their names, in
  this order; \<^verbatim>\<open>registerValidator\<close> itself is defined outside these files.
\<close>

definition registerDefaultValidators :: "unicode_tables \<Rightarrow> (string \<times> ValidatorFilter) list" where
  "registerDefaultValidators T =
     [(''empty'', IsEmpty),
      (''not_empty'', IsNotEmpty),
      (''min'', IsMin),
      (''max'', IsMax),
      (''lowercase'', IsLowerCase T),
      (''uppercase'', IsUpperCase T),
      (''numeric'', IsNumeric)]"

section \<open>Reflection (package core)\<close>

text \<open>
  A Go panic has no value to return: it is the outcome \<open>Panic\<close>. A function with the
  results \<^verbatim>\<open>(x, error)\<close> returns the pair of the two, a nil slice being the empty list.
\<close>

datatype 'a outcome = Panic | Return 'a

subsection \<open>ReflectedField and FullName\<close>

text \<open>
  A field descriptor points to the descriptor of the enclosing field, or to nothing.
  The chain of parents is built from the root down and is finite. The type of a tag
  group is declared outside these files and is a type parameter. The field \<^verbatim>\<open>Value\<close> of
  the Go struct is the selector \<open>FieldValue\<close>, \<open>Value\<close> being the context's.
  \<^verbatim>\<open>FullName\<close> is a method of a descriptor: its receiver is not nil.
\<close>

datatype 'tg ReflectedField =
  ReflectedField (Parent: "'tg ReflectedField option") (Name: string)
    (FieldValue: iface) (TagGroups: "'tg list")

fun FullName_loop :: "'tg ReflectedField option \<Rightarrow> string \<Rightarrow> string" where
  "FullName_loop None fullName = fullName"
| "FullName_loop (Some (ReflectedField grandparent name v tgs)) fullName =
     FullName_loop grandparent
       (if length name > 0 then name @ ''.'' @ fullName else fullName)"

definition FullName :: "'tg ReflectedField \<Rightarrow> string list \<Rightarrow> string" where
  "FullName this postfix =
     (let fullName = FullName_loop (Parent this) (Name this) in
      if length postfix > 0 then
        (if length fullName > 0 then fullName @ ''.'' else fullName) @ Join postfix ''.''
      else fullName)"

text \<open>The names of the ancestors of a field, the outermost first.\<close>

fun ancestor_names :: "'tg ReflectedField option \<Rightarrow> string list" where
  "ancestor_names None = []"
| "ancestor_names (Some (ReflectedField grandparent name v tgs)) =
     ancestor_names grandparent @ [name]"

subsection \<open>GetStructFields\<close>

text \<open>
  What \<^verbatim>\<open>reflect\<close> shows of the argument. A struct field has a name, a tag (the
  key/value pairs of the conventional tag string, in order; \<^verbatim>\<open>Tag.Get\<close> returns the value
  of the first pair with the key, or the empty string), the flag that Go exports it (its
  \<^verbatim>\<open>PkgPath\<close> is empty: the first character of the name is an upper-case letter), and its
  value. The argument is a struct, a pointer to a struct, a nil pointer to a struct (the
  fields of the type are there, the values are not), or anything else; on anything else
  \<^verbatim>\<open>reflect\<close> panics (\<^verbatim>\<open>Type\<close> of the zero Value for a nil interface, \<^verbatim>\<open>NumField\<close> of a type
  that is not a struct).
\<close>

record reflect_StructField =
  sfName :: string
  sfTag :: "(string \<times> string) list"
  sfExported :: bool
  sfValue :: iface

datatype reflect_target =
    StructValue "reflect_StructField list"
  | StructPointer "reflect_StructField list"
  | NilStructPointer "reflect_StructField list"
  | NotAStruct

definition Tag_Get :: "(string \<times> string) list \<Rightarrow> string \<Rightarrow> string" where
  "Tag_Get tag key = (case map_of tag key of None \<Rightarrow> [] | Some v \<Rightarrow> v)"

text \<open>
  The loop over the fields of the struct type. \<open>valid\<close> says that the indirected
  \<^verbatim>\<open>reflect.Value\<close> is a struct value: \<^verbatim>\<open>Field(i)\<close> panics on the zero Value that
  \<^verbatim>\<open>reflect.Indirect\<close> gives for a nil pointer, and \<^verbatim>\<open>Interface()\<close> panics on a field that
  is not exported. Indexing an empty name panics. \<^verbatim>\<open>parseTag\<close> is defined outside these
  files and is a parameter.
\<close>

fun GetStructFields_loop ::
  "unicode_tables \<Rightarrow> (string \<Rightarrow> error + 'tg list) \<Rightarrow> string \<Rightarrow> bool \<Rightarrow>
   reflect_StructField list \<Rightarrow> 'tg ReflectedField list \<Rightarrow>
   ('tg ReflectedField list \<times> error option) outcome" where
  "GetStructFields_loop T parseTag tagName valid [] fieldList = Return (fieldList, None)"
| "GetStructFields_loop T parseTag tagName valid (field # rest) fieldList =
     (case sfName field of
        [] \<Rightarrow> Panic
      | c # _ \<Rightarrow>
          if IsUpper T (of_char c) then
            (case parseTag (Tag_Get (sfTag field) tagName) of
               Inl err \<Rightarrow> Return ([], Some err)
             | Inr tagGroups \<Rightarrow>
                 if \<not> valid \<or> \<not> sfExported field then Panic
                 else GetStructFields_loop T parseTag tagName valid rest
                        (fieldList @ [ReflectedField None (sfName field) (sfValue field) tagGroups]))
          else GetStructFields_loop T parseTag tagName valid rest fieldList)"

definition GetStructFields ::
  "unicode_tables \<Rightarrow> (string \<Rightarrow> error + 'tg list) \<Rightarrow> reflect_target \<Rightarrow> string \<Rightarrow>
   ('tg ReflectedField list \<times> error option) outcome" where
  "GetStructFields T parseTag v tagName =
     (case v of
        StructValue fs \<Rightarrow> GetStructFields_loop T parseTag tagName True fs []
      | StructPointer fs \<Rightarrow> GetStructFields_loop T parseTag tagName True fs []
      | NilStructPointer fs \<Rightarrow> GetStructFields_loop T parseTag tagName False fs []
      | NotAStruct \<Rightarrow> Panic)"

text \<open>
  The fields the loop takes: those whose name's first byte, read as a code point of
  Latin-1, is an upper-case letter.
\<close>

definition considered :: "reflect_StructField \<Rightarrow> bool" where
  "considered f = (case sfName f of [] \<Rightarrow> False | c # _ \<Rightarrow> latin1_upper (of_char c))"

subsection \<open>CallDynamicMethod\<close>

definition InvalidMethodError :: error where
  "InvalidMethodError = errorString ''Method does not exist.''"

definition InputParameterMismatchError :: error where
  "InputParameterMismatchError = errorString ''Arguments does not match those of target function.''"

definition UnhandledCallError :: error where
  "UnhandledCallError = errorString ''Unhandled function call error.''"

text \<open>
  A method found by \<^verbatim>\<open>MethodByName\<close> has its parameter types (of interface kind, or a
  concrete type) and can be called; the call (\<^verbatim>\<open>reflect\<close>'s \<^verbatim>\<open>Call\<close>, then the method's
  own code) returns the results or panics. The target shows two method sets: that of the value form
  (\<^verbatim>\<open>value.MethodByName\<close>) and that of the reference form (\<^verbatim>\<open>ptr.MethodByName\<close>); a name
  that does not resolve gives the invalid \<^verbatim>\<open>reflect.Value\<close>, \<open>None\<close>. A nil interface
  and a nil pointer make \<^verbatim>\<open>reflect\<close> panic before any lookup.
\<close>

datatype reflect_Param = InterfaceKind | ConcreteType reflect_Type

record reflect_Method =
  FuncIn :: "reflect_Param list"
  FuncCall :: "iface list \<Rightarrow> iface list outcome"

datatype call_target =
    NilInterface
  | NilPointer
  | Target (valueMethods: "string \<Rightarrow> reflect_Method option")
           (ptrMethods: "string \<Rightarrow> reflect_Method option")

fun parameters_match :: "reflect_Param list \<Rightarrow> iface list \<Rightarrow> bool" where
  "parameters_match (inputType # ps) (a # as) =
     (case inputType of
        InterfaceKind \<Rightarrow> parameters_match ps as
      | ConcreteType t \<Rightarrow> if TypeOf a \<noteq> Some t then False else parameters_match ps as)"
| "parameters_match _ _ = True"

definition CallDynamicMethod ::
  "call_target \<Rightarrow> string \<Rightarrow> iface list \<Rightarrow> (iface list \<times> error option) outcome" where
  "CallDynamicMethod i methodName args =
     (case i of
        NilInterface \<Rightarrow> Panic
      | NilPointer \<Rightarrow> Panic
      | Target value ptr \<Rightarrow>
          (let finalMethod = value methodName in
           case ptr methodName of
             None \<Rightarrow> Return ([], Some InvalidMethodError)
           | Some method \<Rightarrow>
               (let finalMethod = Some method in
                case finalMethod of
                  None \<Rightarrow> Return ([], Some UnhandledCallError)
                | Some final \<Rightarrow>
                    if length args \<noteq> length (FuncIn final)
                    then Return ([], Some InputParameterMismatchError)
                    else if \<not> parameters_match (FuncIn final) args
                    then Return ([], Some InputParameterMismatchError)
                    else (case FuncCall final args of
                            Panic \<Rightarrow> Panic
                          | Return callResult \<Rightarrow> Return (callResult, None)))))"

section \<open>Properties of the validators\<close>

subsection \<open>Parsing\<close>

lemma ParseInt_range:
  assumes "ParseInt s 32 = Some v"
  shows "- (2 ^ 31) \<le> v \<and> v < 2 ^ 31"
  using assms
  by (auto simp: ParseInt_def Let_def split: list.splits option.splits if_splits)

lemma ParseInt_sint:
  assumes "ParseInt s 32 = Some v"
  shows "sint (word_of_int v :: int64) = v"
proof -
  from assms have "- (2 ^ 31) \<le> v \<and> v < 2 ^ 31" by (rule ParseInt_range)
  then have "signed_take_bit 63 v = v"
    by (intro signed_take_bit_int_eq_self) auto
  then show ?thesis by (simp add: sint_sbintrunc')
qed

text \<open>
  The parser reads back what \<^verbatim>\<open>strconv.Itoa\<close> prints: every integer of 32-bit range
  parses, from its decimal form, to itself.
\<close>

lemma digit_char_of: "d < 10 \<Longrightarrow> digit (char_of (48 + d)) = Some d"
  by (simp add: digit_def)

lemma ParseUint_digits_append:
  "ParseUint_digits maxVal n (xs @ ys) =
     (case ParseUint_digits maxVal n xs of None \<Rightarrow> None | Some m \<Rightarrow> ParseUint_digits maxVal m ys)"
  by (induction xs arbitrary: n) (simp_all split: option.splits)

lemma ParseUint_digits_digits10:
  "k \<le> maxVal \<Longrightarrow> ParseUint_digits maxVal 0 (digits10 k) = Some k"
proof (induction k rule: digits10.induct)
  case (1 n)
  show ?case
  proof (cases "n < 10")
    case True
    with 1 show ?thesis
      by (subst digits10.simps) (simp add: digit_char_of)
  next
    case False
    from 1 have le: "n div 10 \<le> maxVal" by simp
    from False 1 have ih: "ParseUint_digits maxVal 0 (digits10 (n div 10)) = Some (n div 10)"
      using le by simp
    have d: "digit (char_of (48 + n mod 10)) = Some (n mod 10)"
      by (rule digit_char_of) simp
    from False show ?thesis
      using 1(2) by (subst digits10.simps) (simp add: ParseUint_digits_append ih d)
  qed
qed

lemma digits10_nonempty: "digits10 k \<noteq> []"
  by (subst digits10.simps) simp

lemma digits10_hd_digit: "digit (hd (digits10 k)) \<noteq> None"
proof (induction k rule: digits10.induct)
  case (1 n)
  show ?case
  proof (cases "n < 10")
    case True
    then show ?thesis by (subst digits10.simps) (simp add: digit_char_of)
  next
    case False
    with 1 have "digit (hd (digits10 (n div 10))) \<noteq> None" by simp
    with False show ?thesis
      by (subst digits10.simps) (simp add: digits10_nonempty)
  qed
qed

lemma digit_not_sign: "digit c \<noteq> None \<Longrightarrow> c \<noteq> CHR ''+'' \<and> c \<noteq> CHR ''-''"
  by (auto simp: digit_def)

lemma ParseInt_unsigned:
  assumes "s \<noteq> []" and "hd s \<noteq> CHR ''+''" and "hd s \<noteq> CHR ''-''"
    and "ParseUint_digits (2 ^ 32 - 1) 0 s = Some k" and "k < 2 ^ 31"
  shows "ParseInt s 32 = Some (int k)"
  using assms by (cases s) (simp_all add: ParseInt_def ParseUint_def del: ParseUint_digits.simps)

lemma ParseInt_negative:
  assumes "s \<noteq> []" and "ParseUint_digits (2 ^ 32 - 1) 0 s = Some k" and "k \<le> 2 ^ 31"
  shows "ParseInt (CHR ''-'' # s) 32 = Some (- int k)"
  using assms by (simp add: ParseInt_def ParseUint_def del: ParseUint_digits.simps)

lemma ParseInt_Itoa:
  assumes "- (2 ^ 31) \<le> v" and "v < 2 ^ 31"
  shows "ParseInt (Itoa v) 32 = Some v"
proof (cases "v < 0")
  case True
  let ?k = "nat (- v)"
  from True assms have k: "?k \<le> 2 ^ 31" by auto
  then have "?k \<le> 2 ^ 32 - 1" by simp
  then have p: "ParseUint_digits (2 ^ 32 - 1) 0 (digits10 ?k) = Some ?k"
    by (rule ParseUint_digits_digits10)
  have "ParseInt (CHR ''-'' # digits10 ?k) 32 = Some (- int ?k)"
    using digits10_nonempty p k by (rule ParseInt_negative)
  with True show ?thesis by (simp add: Itoa_def)
next
  case False
  let ?k = "nat v"
  from False assms have k: "?k < 2 ^ 31" by auto
  then have "?k \<le> 2 ^ 32 - 1" by simp
  then have p: "ParseUint_digits (2 ^ 32 - 1) 0 (digits10 ?k) = Some ?k"
    by (rule ParseUint_digits_digits10)
  have "digit (hd (digits10 ?k)) \<noteq> None" by (rule digits10_hd_digit)
  then have "hd (digits10 ?k) \<noteq> CHR ''+'' \<and> hd (digits10 ?k) \<noteq> CHR ''-''"
    by (rule digit_not_sign)
  then have "ParseInt (digits10 ?k) 32 = Some (int ?k)"
    using digits10_nonempty p k by (intro ParseInt_unsigned) simp_all
  with False show ?thesis by (simp add: Itoa_def)
qed

subsection \<open>numeric\<close>

text \<open>
  Claim C1. \<^verbatim>\<open>IsNumeric\<close> with no options on a string value: when \<^verbatim>\<open>IsNil\<close> is set or the
  string is empty it returns "{field} must be numeric." and the context is unchanged;
  when the string does not parse as a base-10 integer of 32-bit range it returns
  "{field} must contain numbers only." and the context is unchanged; when it parses, the
  validator returns nil and stores the parsed integer as an \<^verbatim>\<open>int64\<close> in \<^verbatim>\<open>Value\<close>, and
  \<^verbatim>\<open>IsMin\<close> and \<^verbatim>\<open>IsMax\<close> run next on that context compare the integer (their int64
  branch), not the length of the original string.
\<close>

theorem IsNumeric_string:
  assumes "Value ctx = VString s"
  shows "(IsNil ctx \<or> s = [] \<longrightarrow>
            IsNumeric ctx [] = (Some (errorString ''{field} must be numeric.''), ctx))
       \<and> (\<not> IsNil ctx \<and> s \<noteq> [] \<and> ParseInt s 32 = None \<longrightarrow>
            IsNumeric ctx [] = (Some (errorString ''{field} must contain numbers only.''), ctx))
       \<and> (\<forall>v. \<not> IsNil ctx \<and> s \<noteq> [] \<and> ParseInt s 32 = Some v \<longrightarrow>
            IsNumeric ctx [] = (None, ctx\<lparr>Value := VInt64 (word_of_int v)\<rparr>)
            \<and> sint (word_of_int v :: int64) = v
            \<and> (\<forall>opt m. Atoi opt = Some m \<longrightarrow>
                  fst (IsMin (snd (IsNumeric ctx [])) [opt]) =
                    (if word_sless (word_of_int v) (word_of_int m :: int64)
                     then Some (errorString (''{field} cannot be less than '' @ Itoa m @ ''.''))
                     else None)
                \<and> fst (IsMax (snd (IsNumeric ctx [])) [opt]) =
                    (if word_sless (word_of_int m :: int64) (word_of_int v)
                     then Some (errorString (''{field} cannot be greater than '' @ Itoa m @ ''.''))
                     else None)))"
  using assms ParseInt_sint [of s]
  by (auto simp: IsNumeric_def IsMin_def IsMax_def)

theorem IsNumeric_string_witness:
  "IsNumeric \<lparr>Value = VString ''123'', IsNil = False, StopValidate = False\<rparr> []
     = (None, \<lparr>Value = VInt64 123, IsNil = False, StopValidate = False\<rparr>)
   \<and> fst (IsMin (snd (IsNumeric \<lparr>Value = VString ''123'', IsNil = False, StopValidate = False\<rparr> [])) [''200''])
     = Some (errorString ''{field} cannot be less than 200.'')
   \<and> IsNumeric \<lparr>Value = VString ''12a'', IsNil = False, StopValidate = False\<rparr> []
     = (Some (errorString ''{field} must contain numbers only.''),
        \<lparr>Value = VString ''12a'', IsNil = False, StopValidate = False\<rparr>)
   \<and> IsNumeric \<lparr>Value = VString [], IsNil = False, StopValidate = False\<rparr> []
     = (Some (errorString ''{field} must be numeric.''),
        \<lparr>Value = VString [], IsNil = False, StopValidate = False\<rparr>)"
proof -
  let ?c1 = "\<lparr>Value = VString ''123'', IsNil = False, StopValidate = False\<rparr>"
  let ?c2 = "\<lparr>Value = VString ''12a'', IsNil = False, StopValidate = False\<rparr>"
  let ?c3 = "\<lparr>Value = VString [], IsNil = False, StopValidate = False\<rparr>"
  have p1: "ParseInt ''123'' 32 = Some 123"
    by (simp add: ParseInt_def ParseUint_def digit_def)
  have p2: "ParseInt ''12a'' 32 = None"
    by (simp add: ParseInt_def ParseUint_def digit_def)
  have a: "Atoi ''200'' = Some 200"
    by (simp add: Atoi_def ParseInt_def ParseUint_def digit_def IntSize_def)
  have i: "Itoa 200 = ''200''" by code_simp
  have w: "word_sless (123 :: int64) 200" by simp
  have v1: "Value ?c1 = VString ''123''" and v2: "Value ?c2 = VString ''12a''"
    and v3: "Value ?c3 = VString []" by simp_all
  have n1: "\<not> IsNil ?c1 \<and> ''123'' \<noteq> [] \<and> ParseInt ''123'' 32 = Some 123"
    using p1 by simp
  from IsNumeric_string [OF v1, THEN conjunct2, THEN conjunct2, THEN spec, THEN mp, OF n1]
  have r1: "IsNumeric ?c1 [] = (None, ?c1\<lparr>Value := VInt64 (word_of_int 123)\<rparr>)"
    and m1: "\<forall>opt m. Atoi opt = Some m \<longrightarrow>
                  fst (IsMin (snd (IsNumeric ?c1 [])) [opt]) =
                    (if word_sless (word_of_int 123) (word_of_int m :: int64)
                     then Some (errorString (''{field} cannot be less than '' @ Itoa m @ ''.''))
                     else None)
                \<and> fst (IsMax (snd (IsNumeric ?c1 [])) [opt]) =
                    (if word_sless (word_of_int m :: int64) (word_of_int 123)
                     then Some (errorString (''{field} cannot be greater than '' @ Itoa m @ ''.''))
                     else None)"
    by blast+
  from m1 [THEN spec, THEN spec, THEN mp, OF a, THEN conjunct1]
  have g2: "fst (IsMin (snd (IsNumeric ?c1 [])) [''200''])
              = Some (errorString ''{field} cannot be less than 200.'')"
    using w i by simp
  have n2: "\<not> IsNil ?c2 \<and> ''12a'' \<noteq> [] \<and> ParseInt ''12a'' 32 = None"
    using p2 by simp
  note g3 = IsNumeric_string [OF v2, THEN conjunct2, THEN conjunct1, THEN mp, OF n2]
  have n3: "IsNil ?c3 \<or> ([] :: string) = []" by simp
  note g4 = IsNumeric_string [OF v3, THEN conjunct1, THEN mp, OF n3]
  have g1: "IsNumeric ?c1 [] = (None, \<lparr>Value = VInt64 123, IsNil = False, StopValidate = False\<rparr>)"
    using r1 by simp
  from g1 g2 g3 g4 show ?thesis by (intro conjI)
qed

subsection \<open>empty\<close>

text \<open>
  Claim C2. \<^verbatim>\<open>IsEmpty\<close> with no options: an empty string, an \<^verbatim>\<open>int64\<close> equal to 0, or a
  set \<^verbatim>\<open>IsNil\<close> flag (whatever the value) sets \<^verbatim>\<open>StopValidate\<close> and returns nil; a
  non-empty string or a non-zero \<^verbatim>\<open>int64\<close> that is not nil returns nil and leaves the
  context as it was; any other value that is not nil gives the unsupported-type error.
\<close>

theorem IsEmpty_no_options:
  "(Value ctx = VString [] \<or> Value ctx = VInt64 0 \<or> IsNil ctx \<longrightarrow>
      IsEmpty ctx [] = (None, ctx\<lparr>StopValidate := True\<rparr>))
 \<and> (\<not> IsNil ctx \<and> ((\<exists>s. Value ctx = VString s \<and> s \<noteq> []) \<or> (\<exists>i. Value ctx = VInt64 i \<and> i \<noteq> 0)) \<longrightarrow>
      IsEmpty ctx [] = (None, ctx))
 \<and> (\<not> IsNil ctx \<and> (\<forall>s. Value ctx \<noteq> VString s) \<and> (\<forall>i. Value ctx \<noteq> VInt64 i) \<longrightarrow>
      IsEmpty ctx [] = (Some (NewUnsupportedTypeError ''empty'' (Value ctx)), ctx))"
  by (cases "Value ctx") (auto simp: IsEmpty_def)

theorem IsEmpty_no_options_witness:
  "IsEmpty \<lparr>Value = VString [], IsNil = False, StopValidate = False\<rparr> []
     = (None, \<lparr>Value = VString [], IsNil = False, StopValidate = True\<rparr>)
   \<and> IsEmpty \<lparr>Value = VInt64 0, IsNil = True, StopValidate = False\<rparr> []
     = (None, \<lparr>Value = VInt64 0, IsNil = True, StopValidate = True\<rparr>)
   \<and> IsEmpty \<lparr>Value = VString ''x'', IsNil = False, StopValidate = False\<rparr> []
     = (None, \<lparr>Value = VString ''x'', IsNil = False, StopValidate = False\<rparr>)
   \<and> IsEmpty \<lparr>Value = VInt64 5, IsNil = False, StopValidate = False\<rparr> []
     = (None, \<lparr>Value = VInt64 5, IsNil = False, StopValidate = False\<rparr>)
   \<and> IsEmpty \<lparr>Value = VOther ''[]int'', IsNil = False, StopValidate = False\<rparr> []
     = (Some (NewUnsupportedTypeError ''empty'' (VOther ''[]int'')),
        \<lparr>Value = VOther ''[]int'', IsNil = False, StopValidate = False\<rparr>)"
  using IsEmpty_no_options [of "\<lparr>Value = VString [], IsNil = False, StopValidate = False\<rparr>"]
    IsEmpty_no_options [of "\<lparr>Value = VInt64 0, IsNil = True, StopValidate = False\<rparr>"]
    IsEmpty_no_options [of "\<lparr>Value = VString ''x'', IsNil = False, StopValidate = False\<rparr>"]
    IsEmpty_no_options [of "\<lparr>Value = VInt64 5, IsNil = False, StopValidate = False\<rparr>"]
    IsEmpty_no_options [of "\<lparr>Value = VOther ''[]int'', IsNil = False, StopValidate = False\<rparr>"]
  by simp

subsection \<open>min and max on a nil value\<close>

text \<open>
  Claim C3. With one option that parses as an integer, \<^verbatim>\<open>IsMax\<close> returns nil for every
  context whose \<^verbatim>\<open>IsNil\<close> flag is set and whose value is a string, an \<^verbatim>\<open>int64\<close> or a
  \<^verbatim>\<open>float64\<close>, whatever the threshold, while \<^verbatim>\<open>IsMin\<close> returns its value-validation
  error for the same context.
\<close>

theorem IsMax_nil_passes_IsMin_nil_fails:
  assumes "Atoi opt = Some n" and "IsNil ctx"
    and "TypeOf (Value ctx) \<in> {Some StringType, Some Int64Type, Some Float64Type}"
  shows "IsMax ctx [opt] = (None, ctx)
       \<and> IsMin ctx [opt] =
           (Some (errorString
              (case Value ctx of
                 VString s \<Rightarrow> ''{field} cannot be shorter than '' @ Itoa n @ '' characters.''
               | _ \<Rightarrow> ''{field} cannot be less than '' @ Itoa n @ ''.'')), ctx)"
  using assms by (cases "Value ctx") (simp_all add: IsMax_def IsMin_def)

theorem IsMax_nil_passes_IsMin_nil_fails_witness:
  "IsMax \<lparr>Value = VString ''abcd'', IsNil = True, StopValidate = False\<rparr> [''3'']
     = (None, \<lparr>Value = VString ''abcd'', IsNil = True, StopValidate = False\<rparr>)
   \<and> IsMin \<lparr>Value = VString ''abcd'', IsNil = True, StopValidate = False\<rparr> [''3'']
     = (Some (errorString ''{field} cannot be shorter than 3 characters.''),
        \<lparr>Value = VString ''abcd'', IsNil = True, StopValidate = False\<rparr>)"
proof -
  have a: "Atoi ''3'' = Some 3" by (simp add: Atoi_def ParseInt_def ParseUint_def digit_def IntSize_def)
  have i: "Itoa 3 = ''3''" by code_simp
  show ?thesis
    using IsMax_nil_passes_IsMin_nil_fails
      [of "''3''" 3 "\<lparr>Value = VString ''abcd'', IsNil = True, StopValidate = False\<rparr>"] a i
    by simp
qed

subsection \<open>Argument checks come first\<close>

text \<open>
  Claim C4. Each of the seven built-in validators, called with an options list of the
  wrong length (not empty for \<^verbatim>\<open>empty\<close>, \<^verbatim>\<open>not_empty\<close>, \<^verbatim>\<open>lowercase\<close>, \<^verbatim>\<open>uppercase\<close> and
  \<^verbatim>\<open>numeric\<close>; of a length other than 1 for \<^verbatim>\<open>min\<close> and \<^verbatim>\<open>max\<close>), returns its
  configuration error. The error is the same for every context: neither \<^verbatim>\<open>Value\<close> nor
  \<^verbatim>\<open>IsNil\<close> is looked at, and the context is returned as it was.
\<close>

theorem wrong_arity_is_configuration_error:
  "(opts \<noteq> [] \<longrightarrow>
      IsEmpty ctx opts =
        (Some (errorString ''Validator 'empty' does not support any arguments.''), ctx)
    \<and> IsNotEmpty ctx opts =
        (Some (errorString ''Validator 'not_empty' does not support any arguments.''), ctx)
    \<and> IsLowerCase T ctx opts =
        (Some (errorString ''Validator 'lowercase' does not support any arguments.''), ctx)
    \<and> IsUpperCase T ctx opts =
        (Some (errorString ''Validator 'uppercase' does not support any arguments.''), ctx)
    \<and> IsNumeric ctx opts =
        (Some (errorString ''Validator 'numeric' does not support any arguments.''), ctx))
 \<and> (length opts \<noteq> 1 \<longrightarrow>
      IsMin ctx opts = (Some (errorString ''Validator 'min' requires a single argument.''), ctx)
    \<and> IsMax ctx opts = (Some (errorString ''Validator 'max' requires a single argument.''), ctx))"
  by (simp add: IsEmpty_def IsNotEmpty_def IsLowerCase_def IsUpperCase_def IsNumeric_def
      IsMin_def IsMax_def)

theorem wrong_arity_is_configuration_error_witness:
  "IsEmpty \<lparr>Value = VOther ''[]int'', IsNil = False, StopValidate = False\<rparr> [''x'']
     = (Some (errorString ''Validator 'empty' does not support any arguments.''),
        \<lparr>Value = VOther ''[]int'', IsNil = False, StopValidate = False\<rparr>)
   \<and> IsMin \<lparr>Value = VOther ''[]int'', IsNil = False, StopValidate = False\<rparr> [''1'', ''2'']
     = (Some (errorString ''Validator 'min' requires a single argument.''),
        \<lparr>Value = VOther ''[]int'', IsNil = False, StopValidate = False\<rparr>)
   \<and> IsMax \<lparr>Value = VString ''abc'', IsNil = False, StopValidate = False\<rparr> []
     = (Some (errorString ''Validator 'max' requires a single argument.''),
        \<lparr>Value = VString ''abc'', IsNil = False, StopValidate = False\<rparr>)"
  using wrong_arity_is_configuration_error
      [of "[''x'']" "\<lparr>Value = VOther ''[]int'', IsNil = False, StopValidate = False\<rparr>"]
    wrong_arity_is_configuration_error
      [of "[''1'', ''2'']" "\<lparr>Value = VOther ''[]int'', IsNil = False, StopValidate = False\<rparr>"]
    wrong_arity_is_configuration_error
      [of "[]" "\<lparr>Value = VString ''abc'', IsNil = False, StopValidate = False\<rparr>"]
  by simp

text \<open>
  Claim C5. \<^verbatim>\<open>IsMin\<close> and \<^verbatim>\<open>IsMax\<close>, called with exactly one option that does not parse as
  an integer, return "Unable to parse 'min' validator value." and "Unable to parse 'max'
  validator value." for every context, also one whose value has an unsupported type: the
  format error comes before the value-validation and the unsupported-type errors.
\<close>

theorem unparsable_option_is_format_error:
  assumes "Atoi opt = None"
  shows "IsMin ctx [opt] = (Some (errorString ''Unable to parse 'min' validator value.''), ctx)
       \<and> IsMax ctx [opt] = (Some (errorString ''Unable to parse 'max' validator value.''), ctx)"
  using assms by (simp add: IsMin_def IsMax_def)

theorem unparsable_option_is_format_error_witness:
  "IsMin \<lparr>Value = VOther ''[]int'', IsNil = False, StopValidate = False\<rparr> [''x'']
     = (Some (errorString ''Unable to parse 'min' validator value.''),
        \<lparr>Value = VOther ''[]int'', IsNil = False, StopValidate = False\<rparr>)
   \<and> IsMax \<lparr>Value = VOther ''[]int'', IsNil = False, StopValidate = False\<rparr> [''x'']
     = (Some (errorString ''Unable to parse 'max' validator value.''),
        \<lparr>Value = VOther ''[]int'', IsNil = False, StopValidate = False\<rparr>)"
proof -
  have a: "Atoi ''x'' = None"
    by (simp add: Atoi_def ParseInt_def ParseUint_def digit_def IntSize_def)
  show ?thesis
    using unparsable_option_is_format_error
      [OF a, of "\<lparr>Value = VOther ''[]int'', IsNil = False, StopValidate = False\<rparr>"]
    by simp
qed

subsection \<open>The unsupported-type error\<close>

lemma IsEmpty_unsupported:
  "fst (IsEmpty ctx opts) = Some (UnsupportedTypeError t m) \<Longrightarrow>
     UnsupportedTypeError t m = NewUnsupportedTypeError ''empty'' (Value ctx)"
  by (auto simp: IsEmpty_def split: if_splits iface.splits)

lemma IsNotEmpty_unsupported:
  "fst (IsNotEmpty ctx opts) = Some (UnsupportedTypeError t m) \<Longrightarrow>
     UnsupportedTypeError t m = NewUnsupportedTypeError ''not_empty'' (Value ctx)"
  by (auto simp: IsNotEmpty_def split: if_splits iface.splits)

lemma IsMin_unsupported:
  "fst (IsMin ctx opts) = Some (UnsupportedTypeError t m) \<Longrightarrow>
     UnsupportedTypeError t m = NewUnsupportedTypeError ''min'' (Value ctx)"
  by (auto simp: IsMin_def split: if_splits iface.splits option.splits)

lemma IsMax_unsupported:
  "fst (IsMax ctx opts) = Some (UnsupportedTypeError t m) \<Longrightarrow>
     UnsupportedTypeError t m = NewUnsupportedTypeError ''max'' (Value ctx)"
  by (auto simp: IsMax_def split: if_splits iface.splits option.splits)

lemma IsLowerCase_unsupported:
  "fst (IsLowerCase T ctx opts) = Some (UnsupportedTypeError t m) \<Longrightarrow>
     UnsupportedTypeError t m = NewUnsupportedTypeError ''lowercase'' (Value ctx)"
  by (auto simp: IsLowerCase_def split: if_splits iface.splits)

lemma IsUpperCase_unsupported:
  "fst (IsUpperCase T ctx opts) = Some (UnsupportedTypeError t m) \<Longrightarrow>
     UnsupportedTypeError t m = NewUnsupportedTypeError ''uppercase'' (Value ctx)"
  by (auto simp: IsUpperCase_def split: if_splits iface.splits)

lemma IsNumeric_unsupported:
  "fst (IsNumeric ctx opts) = Some (UnsupportedTypeError t m) \<Longrightarrow>
     UnsupportedTypeError t m = NewUnsupportedTypeError ''numeric'' (Value ctx)"
  by (auto simp: IsNumeric_def split: if_splits iface.splits option.splits)

lemma NewUnsupportedTypeError_inject:
  "NewUnsupportedTypeError n v = NewUnsupportedTypeError n' v' \<Longrightarrow> n = n' \<and> TypeOf v = TypeOf v'"
  by (simp add: NewUnsupportedTypeError_def)

text \<open>
  Claim C9. The error made by \<^verbatim>\<open>NewUnsupportedTypeError\<close> carries the \<^verbatim>\<open>reflect.Type\<close> of
  the value and a message that embeds the validator's name, so that two such errors are
  equal only for the same name and the same type; and every unsupported-type error that
  a built-in validator returns is the one made from the name the validator is registered
  under and the value in the context.
\<close>

theorem unsupported_type_error_names_validator_and_type:
  "NewUnsupportedTypeError name v =
     UnsupportedTypeError (TypeOf v)
       (''Validator with name '' @ [CHR 0x27] @ name
          @ ''' on struct '{struct}' and field '{field}' is not supported.'')
 \<and> (\<forall>name' v'. NewUnsupportedTypeError name v = NewUnsupportedTypeError name' v' \<longrightarrow>
        name = name' \<and> TypeOf v = TypeOf v')
 \<and> (\<forall>(registered, validator) \<in> set (registerDefaultValidators T).
      \<forall>ctx opts t m. fst (validator ctx opts) = Some (UnsupportedTypeError t m) \<longrightarrow>
        UnsupportedTypeError t m = NewUnsupportedTypeError registered (Value ctx))"
proof (intro conjI)
  show "NewUnsupportedTypeError name v =
     UnsupportedTypeError (TypeOf v)
       (''Validator with name '' @ [CHR 0x27] @ name
          @ ''' on struct '{struct}' and field '{field}' is not supported.'')"
    by (simp add: NewUnsupportedTypeError_def)
next
  show "\<forall>name' v'. NewUnsupportedTypeError name v = NewUnsupportedTypeError name' v' \<longrightarrow>
        name = name' \<and> TypeOf v = TypeOf v'"
    by (auto dest: NewUnsupportedTypeError_inject)
next
  show "\<forall>(registered, validator) \<in> set (registerDefaultValidators T).
      \<forall>ctx opts t m. fst (validator ctx opts) = Some (UnsupportedTypeError t m) \<longrightarrow>
        UnsupportedTypeError t m = NewUnsupportedTypeError registered (Value ctx)"
    unfolding registerDefaultValidators_def
    using IsEmpty_unsupported IsNotEmpty_unsupported IsMin_unsupported IsMax_unsupported
      IsLowerCase_unsupported IsUpperCase_unsupported IsNumeric_unsupported
    by simp
qed

theorem unsupported_type_error_names_validator_and_type_witness:
  "fst (IsMin \<lparr>Value = VOther ''[]int'', IsNil = False, StopValidate = False\<rparr> [''3''])
     = Some (UnsupportedTypeError (Some (OtherType ''[]int''))
         ''Validator with name 'min' on struct '{struct}' and field '{field}' is not supported.'')
   \<and> UnsupportedTypeError (Some (OtherType ''[]int''))
         ''Validator with name 'min' on struct '{struct}' and field '{field}' is not supported.''
       = NewUnsupportedTypeError ''min'' (VOther ''[]int'')"
proof -
  let ?c = "\<lparr>Value = VOther ''[]int'', IsNil = False, StopValidate = False\<rparr>"
  let ?e = "UnsupportedTypeError (Some (OtherType ''[]int''))
         ''Validator with name 'min' on struct '{struct}' and field '{field}' is not supported.''"
  have a: "Atoi ''3'' = Some 3"
    by (simp add: Atoi_def ParseInt_def ParseUint_def digit_def IntSize_def)
  have r: "fst (IsMin ?c [''3'']) = Some ?e"
    using a by (simp add: IsMin_def NewUnsupportedTypeError_def)
  have reg: "(''min'', IsMin) \<in> set (registerDefaultValidators T)" for T
    by (simp add: registerDefaultValidators_def)
  have "\<forall>(registered, validator) \<in> set (registerDefaultValidators T).
      \<forall>ctx opts t m. fst (validator ctx opts) = Some (UnsupportedTypeError t m) \<longrightarrow>
        UnsupportedTypeError t m = NewUnsupportedTypeError registered (Value ctx)" for T
    using unsupported_type_error_names_validator_and_type [of _ _ T] by blast
  with reg have "\<forall>ctx opts t m. fst (IsMin ctx opts) = Some (UnsupportedTypeError t m) \<longrightarrow>
        UnsupportedTypeError t m = NewUnsupportedTypeError ''min'' (Value ctx)"
    by blast
  with r have "?e = NewUnsupportedTypeError ''min'' (Value ?c)" by blast
  with r show ?thesis by simp
qed

subsection \<open>The stop flag\<close>

lemma IsNotEmpty_StopValidate: "StopValidate (snd (IsNotEmpty ctx opts)) = StopValidate ctx"
  by (simp add: IsNotEmpty_def split: iface.splits)

lemma IsMin_StopValidate: "StopValidate (snd (IsMin ctx opts)) = StopValidate ctx"
  by (simp add: IsMin_def split: iface.splits option.splits)

lemma IsMax_StopValidate: "StopValidate (snd (IsMax ctx opts)) = StopValidate ctx"
  by (simp add: IsMax_def split: iface.splits option.splits)

lemma IsLowerCase_StopValidate: "StopValidate (snd (IsLowerCase T ctx opts)) = StopValidate ctx"
  by (simp add: IsLowerCase_def split: iface.splits)

lemma IsUpperCase_StopValidate: "StopValidate (snd (IsUpperCase T ctx opts)) = StopValidate ctx"
  by (simp add: IsUpperCase_def split: iface.splits)

lemma IsNumeric_StopValidate: "StopValidate (snd (IsNumeric ctx opts)) = StopValidate ctx"
  by (simp add: IsNumeric_def split: iface.splits option.splits)

lemma IsEmpty_StopValidate_mono: "StopValidate ctx \<Longrightarrow> StopValidate (snd (IsEmpty ctx opts))"
  by (simp add: IsEmpty_def split: iface.splits)

lemma IsEmpty_sets_StopValidate:
  "\<not> StopValidate \<lparr>Value = VString [], IsNil = False, StopValidate = False\<rparr>
   \<and> StopValidate (snd (IsEmpty \<lparr>Value = VString [], IsNil = False, StopValidate = False\<rparr> []))"
  by (simp add: IsEmpty_def)

text \<open>
  Claim C10. Of the seven built-in validators only \<^verbatim>\<open>IsEmpty\<close> writes \<^verbatim>\<open>StopValidate\<close>:
  \<^verbatim>\<open>IsNotEmpty\<close>, \<^verbatim>\<open>IsMin\<close>, \<^verbatim>\<open>IsMax\<close>, \<^verbatim>\<open>IsLowerCase\<close>, \<^verbatim>\<open>IsUpperCase\<close> and \<^verbatim>\<open>IsNumeric\<close>
  return with the flag as they found it, for every input; \<^verbatim>\<open>IsEmpty\<close> can set it, and
  never turns a set flag off.
\<close>

theorem only_IsEmpty_writes_StopValidate:
  "StopValidate (snd (IsNotEmpty ctx opts)) = StopValidate ctx
 \<and> StopValidate (snd (IsMin ctx opts)) = StopValidate ctx
 \<and> StopValidate (snd (IsMax ctx opts)) = StopValidate ctx
 \<and> StopValidate (snd (IsLowerCase T ctx opts)) = StopValidate ctx
 \<and> StopValidate (snd (IsUpperCase T ctx opts)) = StopValidate ctx
 \<and> StopValidate (snd (IsNumeric ctx opts)) = StopValidate ctx
 \<and> (StopValidate ctx \<longrightarrow> StopValidate (snd (IsEmpty ctx opts)))
 \<and> (\<exists>c. \<not> StopValidate c \<and> StopValidate (snd (IsEmpty c [])))"
  using IsNotEmpty_StopValidate [of ctx opts] IsMin_StopValidate [of ctx opts]
    IsMax_StopValidate [of ctx opts] IsLowerCase_StopValidate [of T ctx opts]
    IsUpperCase_StopValidate [of T ctx opts] IsNumeric_StopValidate [of ctx opts]
    IsEmpty_StopValidate_mono [of ctx opts] IsEmpty_sets_StopValidate
  by blast

theorem only_IsEmpty_writes_StopValidate_witness:
  "StopValidate (snd (IsEmpty \<lparr>Value = VString ''x'', IsNil = False, StopValidate = True\<rparr> []))
   \<and> StopValidate (snd (IsNumeric \<lparr>Value = VString ''7'', IsNil = False, StopValidate = True\<rparr> []))
   \<and> \<not> StopValidate (snd (IsNotEmpty \<lparr>Value = VString [], IsNil = True, StopValidate = False\<rparr> []))"
  using only_IsEmpty_writes_StopValidate
      [of "\<lparr>Value = VString ''x'', IsNil = False, StopValidate = True\<rparr>" "[]"]
    only_IsEmpty_writes_StopValidate
      [of "\<lparr>Value = VString ''7'', IsNil = False, StopValidate = True\<rparr>" "[]"]
    only_IsEmpty_writes_StopValidate
      [of "\<lparr>Value = VString [], IsNil = True, StopValidate = False\<rparr>" "[]"]
  by simp

subsection \<open>The validators on sample values\<close>

text \<open>
  The case validators, the bounds and the float comparisons evaluated on sample values:
  "abc" is lower case and not upper case, digits and punctuation are ignored, 2.5 is
  less than 3 and 3.0 is not, and a NaN is neither less nor greater than anything.
\<close>

lemma runes_of_abc: "runes_of ''abc'' = [97, 98, 99]"
  by (simp add: runes_of_def range_runes.simps)

lemma runes_of_a1: "runes_of ''a1!'' = [97, 49, 33]"
  by (simp add: runes_of_def range_runes.simps)

lemma lowercase_examples:
  "IsLowerCase T \<lparr>Value = VString ''abc'', IsNil = False, StopValidate = False\<rparr> []
     = (None, \<lparr>Value = VString ''abc'', IsNil = False, StopValidate = False\<rparr>)
 \<and> IsUpperCase T \<lparr>Value = VString ''abc'', IsNil = False, StopValidate = False\<rparr> []
     = (Some (errorString ''{field} must be in upper case.''),
        \<lparr>Value = VString ''abc'', IsNil = False, StopValidate = False\<rparr>)
 \<and> IsLowerCase T \<lparr>Value = VString ''a1!'', IsNil = False, StopValidate = False\<rparr> []
     = (None, \<lparr>Value = VString ''a1!'', IsNil = False, StopValidate = False\<rparr>)"
  by (simp add: IsLowerCase_def IsUpperCase_def runes_of_abc runes_of_a1 IsLetter_def IsLower_def
      IsUpper_def MaxLatin1_def latin1_letter_def latin1_lower_def latin1_upper_def)

lemma Atoi_3: "Atoi ''3'' = Some 3"
  by (simp add: Atoi_def ParseInt_def ParseUint_def digit_def IntSize_def)

lemma Itoa_3: "Itoa 3 = ''3''"
  by code_simp

lemma min_max_examples:
  "fst (IsMin \<lparr>Value = VString ''ab'', IsNil = False, StopValidate = False\<rparr> [''3''])
     = Some (errorString ''{field} cannot be shorter than 3 characters.'')
 \<and> fst (IsMin \<lparr>Value = VString ''abc'', IsNil = False, StopValidate = False\<rparr> [''3'']) = None
 \<and> fst (IsMin \<lparr>Value = VInt64 2, IsNil = False, StopValidate = False\<rparr> [''3''])
     = Some (errorString ''{field} cannot be less than 3.'')
 \<and> fst (IsMin \<lparr>Value = VInt64 3, IsNil = False, StopValidate = False\<rparr> [''3'']) = None
 \<and> fst (IsMax \<lparr>Value = VString ''abcd'', IsNil = False, StopValidate = False\<rparr> [''3''])
     = Some (errorString ''{field} is longer than 3 characters.'')
 \<and> fst (IsMax \<lparr>Value = VString ''abc'', IsNil = False, StopValidate = False\<rparr> [''3'']) = None"
  by (simp add: IsMin_def IsMax_def Atoi_3 Itoa_3)

lemma float64_three: "float64_scaled 0x4008000000000000 = 3 * 2 ^ 1074"
  by (simp add: float64_scaled_def float64_exp_def float64_frac_def drop_bit_eq_div bit_iff_odd)

lemma float64_examples:
  "float64_less_int 0x4004000000000000 3
 \<and> \<not> float64_less_int 0x4008000000000000 3
 \<and> \<not> float64_less_int 0x7FF8000000000000 3
 \<and> \<not> float64_greater_int 0x7FF8000000000000 3
 \<and> float64_is_zero 0x8000000000000000"
  by (simp add: float64_less_int_def float64_greater_int_def float64_isNaN_def float64_is_zero_def
      float64_of_int_def float64_scaled_def float64_exp_def float64_frac_def drop_bit_eq_div
      bit_iff_odd)

lemma float_min_examples:
  "fst (IsMin \<lparr>Value = VFloat64 0x4004000000000000, IsNil = False, StopValidate = False\<rparr> [''3''])
     = Some (errorString ''{field} cannot be less than 3.'')
 \<and> fst (IsMin \<lparr>Value = VFloat64 0x4008000000000000, IsNil = False, StopValidate = False\<rparr> [''3''])
     = None"
  using float64_examples by (simp add: IsMin_def Atoi_3 Itoa_3)

section \<open>Properties of the reflection helpers\<close>

subsection \<open>FullName\<close>

lemma Join_snoc: "Join (xs @ [n]) sep = concat (map (\<lambda>x. x @ sep) xs) @ n"
  by (induction xs sep rule: Join.induct) simp_all

lemma Join_append:
  "xs \<noteq> [] \<Longrightarrow> ys \<noteq> [] \<Longrightarrow> Join (xs @ ys) sep = Join xs sep @ sep @ Join ys sep"
proof (induction xs sep rule: Join.induct)
  case (1 sep)
  then show ?case by simp
next
  case (2 a sep)
  then show ?case by (cases ys) simp_all
next
  case (3 a b rest sep)
  then show ?case by simp
qed

lemma FullName_loop_eq:
  "FullName_loop p fullName =
     concat (map (\<lambda>x. x @ ''.'') (filter (\<lambda>n. n \<noteq> []) (ancestor_names p))) @ fullName"
  by (induction p fullName rule: FullName_loop.induct) simp_all

lemma FullName_base:
  "FullName_loop (Parent this) (Name this) =
     Join (filter (\<lambda>n. n \<noteq> []) (ancestor_names (Parent this)) @ [Name this]) ''.''"
  by (simp only: FullName_loop_eq Join_snoc)

text \<open>
  Claim C7. \<^verbatim>\<open>FullName(postfix...)\<close> is the chain of the non-empty names of the
  ancestors, the outermost first, followed by the field's own name, joined by dots;
  the postfix segments, joined by dots, are appended to it, after a dot when the chain
  is not the empty string. A field named "Inner" whose parent is a field named "Outer"
  with no parent has the full name "Outer.Inner".
\<close>

theorem FullName_dot_joined:
  "FullName this postfix =
     (let chain = filter (\<lambda>n. n \<noteq> []) (ancestor_names (Parent this)) @ [Name this];
          base = Join chain ''.''
      in if postfix = [] then base
         else if base = [] then Join postfix ''.''
         else Join (chain @ postfix) ''.'')
 \<and> FullName (ReflectedField (Some (ReflectedField None ''Outer'' v1 t1)) ''Inner'' v2 t2) []
       = ''Outer.Inner''"
proof
  let ?chain = "filter (\<lambda>n. n \<noteq> []) (ancestor_names (Parent this)) @ [Name this]"
  have base: "FullName_loop (Parent this) (Name this) = Join ?chain ''.''"
    by (rule FullName_base)
  have app: "postfix \<noteq> [] \<Longrightarrow> Join (?chain @ postfix) ''.'' = Join ?chain ''.'' @ ''.'' @ Join postfix ''.''"
    by (rule Join_append) simp_all
  show "FullName this postfix =
     (let chain = ?chain; base = Join chain ''.''
      in if postfix = [] then base
         else if base = [] then Join postfix ''.''
         else Join (chain @ postfix) ''.'')"
    using app by (simp add: FullName_def base Let_def del: Join.simps append_assoc)
next
  show "FullName (ReflectedField (Some (ReflectedField None ''Outer'' v1 t1)) ''Inner'' v2 t2) []
       = ''Outer.Inner''"
    by (simp add: FullName_def)
qed

theorem FullName_dot_joined_witness:
  "FullName (ReflectedField (Some (ReflectedField (Some (ReflectedField None ''Root'' VNil []))
              [] VNil [])) ''Items'' VNil ([] :: nat list)) [''0'', ''Name'']
     = ''Root.Items.0.Name''"
  using FullName_dot_joined
    [of "ReflectedField (Some (ReflectedField (Some (ReflectedField None ''Root'' VNil []))
              [] VNil [])) ''Items'' VNil ([] :: nat list)" "[''0'', ''Name'']", THEN conjunct1]
  by simp

subsection \<open>GetStructFields\<close>

text \<open>
  The loop tests one byte, so the range tables do not matter. When a tag does not
  parse, the error is returned with no field; when every name is non-empty and every
  field taken is exported and has a tag that parses, the descriptors of exactly the
  fields taken are returned, in the order of declaration.
\<close>

lemma IsUpper_byte: "IsUpper T (of_char c) = latin1_upper (of_char c)"
proof -
  have "(of_char c :: nat) < 256" by (rule nat_of_char_less_256)
  then have "(of_char c :: nat) \<le> 255" by arith
  then show ?thesis by (simp add: IsUpper_def MaxLatin1_def)
qed

lemma GetStructFields_loop_error:
  "GetStructFields_loop T parseTag tagName valid fs acc = Return (res, Some e) \<Longrightarrow> res = []"
  by (induction fs arbitrary: acc) (auto split: list.splits sum.splits if_splits)

lemma GetStructFields_error_nil:
  "GetStructFields T parseTag v tagName = Return (res, Some e) \<Longrightarrow> res = []"
  by (auto simp: GetStructFields_def split: reflect_target.splits dest: GetStructFields_loop_error)

lemma GetStructFields_loop_ok:
  assumes "\<forall>f \<in> set fs. sfName f \<noteq> []"
    and "\<forall>f \<in> set fs. considered f \<longrightarrow> sfExported f \<and> (\<exists>g. parseTag (Tag_Get (sfTag f) tagName) = Inr g)"
  shows "GetStructFields_loop T parseTag tagName True fs acc =
     Return (acc @ map (\<lambda>f. ReflectedField None (sfName f) (sfValue f)
                           (projr (parseTag (Tag_Get (sfTag f) tagName))))
                     (filter considered fs), None)"
  using assms
  by (induction fs arbitrary: acc)
     (auto simp: considered_def IsUpper_byte split: list.splits sum.splits)

text \<open>
  Claim C6, at two structs. The claim: \<^verbatim>\<open>GetStructFields\<close> returns a descriptor for
  exactly the fields whose name begins with an upper-case character (the comment in the
  code: "only grab exported fields"). The code tests the first byte of the name, not its
  first character. A struct whose only field is the exported field named U+1E00 (LATIN
  CAPITAL LETTER A WITH RING BELOW, the bytes E1 B8 80) gives no descriptor, since the
  byte E1 is the lower-case letter U+00E1; and a struct whose only field is the
  unexported field named U+00E9 (LATIN SMALL LETTER E WITH ACUTE, the bytes C3 A9) is
  not skipped, since the byte C3 is the upper-case letter U+00C3: its tag is parsed, and
  then either the parse error is returned or \<^verbatim>\<open>Interface()\<close> panics on the unexported
  field; in neither case is the result the empty list with no error.
\<close>

theorem GetStructFields_tests_first_byte:
  "fst (DecodeRune (map of_char [CHR 0xE1, CHR 0xB8, CHR 0x80])) = 7680
 \<and> GetStructFields T parseTag
      (StructValue [\<lparr>sfName = [CHR 0xE1, CHR 0xB8, CHR 0x80], sfTag = tag,
                      sfExported = True, sfValue = v\<rparr>]) tagName
      = Return ([], None)
 \<and> fst (DecodeRune (map of_char [CHR 0xC3, CHR 0xA9])) = 233
 \<and> GetStructFields T parseTag
      (StructValue [\<lparr>sfName = [CHR 0xC3, CHR 0xA9], sfTag = tag,
                      sfExported = False, sfValue = v\<rparr>]) tagName
      = (case parseTag (Tag_Get tag tagName) of
           Inl err \<Rightarrow> Return ([], Some err)
         | Inr tagGroups \<Rightarrow> Panic)"
  by (simp add: GetStructFields_def IsUpper_def MaxLatin1_def latin1_upper_def cont_in_def
      split: sum.splits)

subsection \<open>CallDynamicMethod\<close>

text \<open>
  The "method not found" error is returned exactly when the name does not resolve on
  the reference form, whatever the value form says; a method found on the reference
  form is the one that is checked against the arguments and called.
\<close>

lemma CallDynamicMethod_not_found_iff:
  "CallDynamicMethod (Target value ptr) methodName args = Return ([], Some InvalidMethodError)
     \<longleftrightarrow> ptr methodName = None"
  by (auto simp: CallDynamicMethod_def InvalidMethodError_def InputParameterMismatchError_def
      split: option.splits outcome.splits)

lemma CallDynamicMethod_reference_form:
  assumes "ptr methodName = Some m"
  shows "CallDynamicMethod (Target value ptr) methodName args =
     (if length args \<noteq> length (FuncIn m) \<or> \<not> parameters_match (FuncIn m) args
      then Return ([], Some InputParameterMismatchError)
      else case FuncCall m args of Panic \<Rightarrow> Panic | Return r \<Rightarrow> Return (r, None))"
  using assms by (simp add: CallDynamicMethod_def)

text \<open>
  Claim C8, at one target. The claim: \<^verbatim>\<open>CallDynamicMethod\<close> returns the "method not
  found" error if and only if the name resolves on neither form. For a target whose
  value form has the method "M" and whose reference form has no method (in Go: a
  pointer to a pointer \<^verbatim>\<open>**T\<close>, where \<^verbatim>\<open>*T\<close> has the method), the lookup on the value form
  succeeds and the code still returns the error, from the \<^verbatim>\<open>else\<close> branch of the lookup on
  the reference form.
\<close>

theorem CallDynamicMethod_value_form_only:
  "valueMethods (Target (\<lambda>n. if n = ''M'' then Some \<lparr>FuncIn = [], FuncCall = (\<lambda>args. Return [VString ''ok''])\<rparr> else None)
                        (\<lambda>n. None)) ''M''
     = Some \<lparr>FuncIn = [], FuncCall = (\<lambda>args. Return [VString ''ok''])\<rparr>
 \<and> CallDynamicMethod
       (Target (\<lambda>n. if n = ''M'' then Some \<lparr>FuncIn = [], FuncCall = (\<lambda>args. Return [VString ''ok''])\<rparr> else None)
               (\<lambda>n. None)) ''M'' []
     = Return ([], Some InvalidMethodError)"
  by (simp add: CallDynamicMethod_def)

end
